theory Spec2Isabelle
  imports Main "HOL-Library.Word"
begin

section \<open>AlgoEase bounty contract: the box-storage state machine\<close>

text \<open>
  A shallow embedding of \<^verbatim>\<open>AlgoEase/contracts/algoease_bounty_contract.py\<close>
  (class \<^verbatim>\<open>AlgoEaseBountyContract\<close>). Every public method becomes a function from the
  transaction environment and the contract state to either an error or a return value with
  the new state. A failed \<^verbatim>\<open>assert\<close>, a failed box access, a library call the library
  does not offer and a failed inner payment all abort the application call; the error
  constructors name what failed. The calls into \<^verbatim>\<open>algopy\<close> mean what the library as
  released makes them mean, also where the source expects something else.
\<close>

subsection \<open>Values: bytes, unsigned integers, accounts\<close>

type_synonym byte = "8 word"
type_synonym bytes = "byte list"
type_synonym uint64 = "64 word"

text \<open>An \<^verbatim>\<open>Account\<close> is a 32-byte address; it is kept as the 256-bit number its bytes spell.\<close>

type_synonym account = "256 word"

text \<open>Big-endian bytes of a number, at a fixed width, and the way back.\<close>

fun be_bytes :: "nat \<Rightarrow> nat \<Rightarrow> bytes" where
  "be_bytes 0 v = []"
| "be_bytes (Suc n) v = be_bytes n (v div 256) @ [of_nat (v mod 256)]"

definition be_nat :: "bytes \<Rightarrow> nat" where
  "be_nat bs = foldl (\<lambda>a b. a * 256 + unat b) 0 bs"

text \<open>
  \<^verbatim>\<open>op.itob\<close>: the big-endian encoding of a \<^verbatim>\<open>UInt64\<close>, always eight bytes long. The
  source relies on it: it stores \<^verbatim>\<open>op.itob(amount)\<close> in bytes 96-103 and
  \<^verbatim>\<open>op.itob(deadline)\<close> in bytes 104-111, and counts eight bytes for
  \<^verbatim>\<open>op.itob(bounty_id)\<close> in the box name; the sibling contracts
  (\<^verbatim>\<open>algoease_bounty_escrow.py\<close>, \<^verbatim>\<open>algoease_contract_v6.py\<close>) note "Itob produces 8 bytes,
  extract only the last byte (offset 7)" where they store a status. \<^verbatim>\<open>op.btoi\<close> reads
  big-endian bytes back; the contract only applies it to extracts of one or eight bytes.
\<close>

definition itob :: "uint64 \<Rightarrow> bytes" where
  "itob x = be_bytes 8 (unat x)"

definition btoi :: "bytes \<Rightarrow> uint64" where
  "btoi bs = of_nat (be_nat bs)"

definition bzero :: "nat \<Rightarrow> bytes" where
  "bzero n = replicate n 0"

definition account_bytes :: "account \<Rightarrow> bytes" where
  "account_bytes a = be_bytes 32 (unat a)"

definition Account :: "bytes \<Rightarrow> account" where
  "Account bs = of_nat (be_nat bs)"

subsection \<open>Status constants\<close>

definition STATUS_OPEN :: uint64 where "STATUS_OPEN = 0"
definition STATUS_ACCEPTED :: uint64 where "STATUS_ACCEPTED = 1"
definition STATUS_SUBMITTED :: uint64 where "STATUS_SUBMITTED = 2"
definition STATUS_APPROVED :: uint64 where "STATUS_APPROVED = 3"
definition STATUS_CLAIMED :: uint64 where "STATUS_CLAIMED = 4"
definition STATUS_REJECTED :: uint64 where "STATUS_REJECTED = 5"
definition STATUS_REFUNDED :: uint64 where "STATUS_REFUNDED = 6"

subsection \<open>Errors\<close>

text \<open>
  One constructor per assertion message of the source, named after the error taxonomy:
  \<^item> \<open>NotFound\<close>: "Bounty not found";
  \<^item> \<open>InvalidState\<close>: "Bounty must be ... to ...", "Bounty already claimed/refunded/rejected";
  \<^item> \<open>DeadlineExpired\<close>: "Bounty deadline has passed", "Deadline has passed, use auto_refund";
  \<^item> \<open>DeadlineNotExpired\<close>: "Deadline has not passed yet";
  \<^item> \<open>InvalidSender\<close>: "Invalid sender address";
  \<^item> \<open>SelfDealing\<close>: "Client cannot accept their own bounty";
  \<^item> \<open>Unauthorized\<close>: "Only assigned freelancer can ...", "Only creator or verifier can ...";
  \<^item> \<open>InvalidAmount\<close>: "Invalid amount";
  \<^item> \<open>NotGrouped\<close>: "Must be grouped transaction", "Must be second transaction in group";
  \<^item> \<open>InvalidFunding\<close>: "Payment must be to contract", "Payment sender must match transaction
    sender", "Amount must be greater than 0";
  \<^item> \<open>DeadlineNotFuture\<close>: "Deadline must be in the future";
  \<^item> \<open>UIntOverflow\<close>: a \<^verbatim>\<open>UInt64\<close> addition overflows or a subtraction goes below zero;
  \<^item> \<open>BoxRange\<close>: a box is read outside its size, or created over a box of another size;
  \<^item> \<open>TypeError\<close>: \<^verbatim>\<open>op.Box.put\<close> is called with three arguments;
  \<^item> \<open>AttributeError\<close>: \<^verbatim>\<open>op.len\<close> is called, which \<^verbatim>\<open>algopy.op\<close> does not have;
  \<^item> \<open>TransferFailed\<close>: the inner payment is refused.
\<close>

datatype error =
    NotFound | InvalidState | DeadlineExpired | DeadlineNotExpired
  | InvalidSender | SelfDealing | Unauthorized | InvalidAmount
  | NotGrouped | InvalidFunding | DeadlineNotFuture
  | UIntOverflow | BoxRange | TypeError | AttributeError | TransferFailed

definition bind :: "error + 'a \<Rightarrow> ('a \<Rightarrow> error + 'b) \<Rightarrow> error + 'b" where
  "bind m f = (case m of Inl e \<Rightarrow> Inl e | Inr x \<Rightarrow> f x)"

subsection \<open>Contract state and transaction environment\<close>

text \<open>
  The state is the global \<^verbatim>\<open>bounty_count\<close>, the boxes (box name to contents), the balance
  the contract address holds for the bounties, and the inner payments submitted so far
  (receiver and amount, oldest first).
\<close>

record state =
  bounty_count :: uint64
  boxes :: "bytes \<rightharpoonup> bytes"
  escrow :: nat
  payments :: "(account \<times> uint64) list"

text \<open>
  What a call reads from \<^verbatim>\<open>Txn\<close> and \<^verbatim>\<open>Global\<close>. \<open>itxn_ok\<close> says whether the ledger
  would accept an inner payment of this call for reasons outside the contract (minimum
  balances, the receiver's account).
\<close>

record env =
  sender :: account
  latest_timestamp :: uint64
  group_size :: uint64
  group_index :: uint64
  current_application_address :: account
  itxn_ok :: bool


subsection \<open>Box storage\<close>

text \<open>
  The box operations the source calls, as the library defines them.
  \<^item> \<^verbatim>\<open>op.Box.length(name)\<close> returns the length first and the existence flag second. The
    source unpacks it as \<^verbatim>\<open>box_exists, box_size = op.Box.length(box_name)\<close>, so its
    \<^verbatim>\<open>box_exists\<close> is the length and its \<^verbatim>\<open>box_size\<close> is the flag.
  \<^item> \<^verbatim>\<open>op.Box.create(name, size)\<close> makes a zero-filled box; on an existing box it changes
    nothing when the size agrees and fails otherwise.
  \<^item> \<^verbatim>\<open>op.Box.extract(name, offset, length)\<close> reads a range and fails when the box is
    missing or the range leaves the box.
  \<^item> \<^verbatim>\<open>op.Box.put\<close> takes a name and a value and replaces the whole box; the write at an
    offset is \<^verbatim>\<open>op.Box.replace\<close>. The source calls \<^verbatim>\<open>op.Box.put(name, offset, value)\<close>
    everywhere it writes; a call with three arguments is refused, whatever they are.
  \<^item> \<^verbatim>\<open>op.len\<close> is not a function of \<^verbatim>\<open>algopy.op\<close> (the length of a byte string is its
    \<^verbatim>\<open>length\<close> property); the call in \<^verbatim>\<open>create_bounty\<close> is refused.
\<close>

definition Box_length :: "bytes \<Rightarrow> state \<Rightarrow> nat \<times> bool" where
  "Box_length name s = (case boxes s name of None \<Rightarrow> (0, False) | Some b \<Rightarrow> (length b, True))"


definition Box_put :: "bytes \<Rightarrow> nat \<Rightarrow> bytes \<Rightarrow> state \<Rightarrow> error + state" where
  "Box_put name off v s = Inl TypeError"

definition Box_extract :: "bytes \<Rightarrow> nat \<Rightarrow> nat \<Rightarrow> state \<Rightarrow> error + bytes" where
  "Box_extract name off len s =
     (case boxes s name of
        None \<Rightarrow> Inl BoxRange
      | Some b \<Rightarrow> if off + len \<le> length b then Inr (take len (drop off b)) else Inl BoxRange)"


text \<open>
  The box name \<^verbatim>\<open>op.concat(arc4.String("bounty_").bytes, op.itob(bounty_id))\<close>: the ARC4
  encoding of the prefix (two length bytes, then the characters) followed by the eight
  bytes of the identifier.
\<close>

definition bounty_prefix :: bytes where
  "bounty_prefix = [0, 7, 98, 111, 117, 110, 116, 121, 95]"

definition box_name_of :: "uint64 \<Rightarrow> bytes" where
  "box_name_of bounty_id = bounty_prefix @ itob bounty_id"

subsection \<open>Inner payment\<close>

text \<open>
  \<^verbatim>\<open>itxn.Payment(receiver=..., amount=..., fee=0).submit()\<close>: pays from the contract
  address. It is refused when the contract does not hold the amount or the ledger refuses
  it; a refused inner transaction aborts the call.
\<close>

definition submit_payment :: "env \<Rightarrow> account \<Rightarrow> uint64 \<Rightarrow> state \<Rightarrow> error + state" where
  "submit_payment e receiver amount s =
     (if itxn_ok e \<and> unat amount \<le> escrow s
      then Inr (s\<lparr>escrow := escrow s - unat amount,
                  payments := payments s @ [(receiver, amount)]\<rparr>)
      else Inl TransferFailed)"

subsection \<open>The public methods\<close>

text \<open>
  Each method follows the source statement by statement, also past the call that aborts
  it. The description argument is the byte string \<^verbatim>\<open>task_description.bytes\<close>. Box sizes
  and offsets are natural numbers. \<^verbatim>\<open>assert box_exists\<close> tests the number the source
  binds to \<^verbatim>\<open>box_exists\<close>, the length, for being non-zero. The payment grouped with
  \<^verbatim>\<open>create_bounty\<close> is addressed to the contract (the method checks it); the model books
  its amount together with the counter increment.
\<close>

definition genesis :: state where
  "genesis = \<lparr>bounty_count = 0, boxes = Map.empty, escrow = 0, payments = []\<rparr>"


definition accept_bounty :: "env \<Rightarrow> uint64 \<Rightarrow> state \<Rightarrow> error + (bool \<times> state)" where
  "accept_bounty e bounty_id s =
     (let box_name = box_name_of bounty_id;
          (box_exists, box_size) = Box_length box_name s
      in if box_exists = 0 then Inl NotFound
      else bind (Box_extract box_name 0 32 s) (\<lambda>client_b.
           bind (Box_extract box_name 32 32 s) (\<lambda>freelancer_b.
           bind (Box_extract box_name 104 8 s) (\<lambda>deadline_b.
           bind (Box_extract box_name 112 1 s) (\<lambda>status_b.
           let client = Account client_b;
               deadline = btoi deadline_b;
               status = btoi status_b
           in if status \<noteq> STATUS_OPEN then Inl InvalidState
           else if \<not> latest_timestamp e < deadline then Inl DeadlineExpired
           else if account_bytes (sender e) = bzero 32 then Inl InvalidSender
           else if sender e = client then Inl SelfDealing
           else bind (Box_put box_name 32 (account_bytes (sender e)) s) (\<lambda>s1.
                bind (Box_put box_name 112 (itob STATUS_ACCEPTED) s1) (\<lambda>s2.
                Inr (True, s2))))))))"

definition submit_bounty :: "env \<Rightarrow> uint64 \<Rightarrow> state \<Rightarrow> error + (bool \<times> state)" where
  "submit_bounty e bounty_id s =
     (let box_name = box_name_of bounty_id;
          (box_exists, _) = Box_length box_name s
      in if box_exists = 0 then Inl NotFound
      else bind (Box_extract box_name 32 32 s) (\<lambda>freelancer_b.
           bind (Box_extract box_name 112 1 s) (\<lambda>status_b.
           let freelancer = Account freelancer_b;
               status = btoi status_b
           in if status \<noteq> STATUS_ACCEPTED then Inl InvalidState
           else if sender e \<noteq> freelancer then Inl Unauthorized
           else bind (Box_put box_name 112 (itob STATUS_SUBMITTED) s) (\<lambda>s1.
                Inr (True, s1)))))"

definition approve_bounty :: "env \<Rightarrow> uint64 \<Rightarrow> state \<Rightarrow> error + (bool \<times> state)" where
  "approve_bounty e bounty_id s =
     (let box_name = box_name_of bounty_id;
          (box_exists, _) = Box_length box_name s
      in if box_exists = 0 then Inl NotFound
      else bind (Box_extract box_name 0 32 s) (\<lambda>client_b.
           bind (Box_extract box_name 64 32 s) (\<lambda>verifier_b.
           bind (Box_extract box_name 112 1 s) (\<lambda>status_b.
           let client = Account client_b;
               verifier = Account verifier_b;
               status = btoi status_b
           in if status \<noteq> STATUS_SUBMITTED then Inl InvalidState
           else if \<not> (sender e = client \<or> sender e = verifier) then Inl Unauthorized
           else bind (Box_put box_name 112 (itob STATUS_APPROVED) s) (\<lambda>s1.
                Inr (True, s1))))))"

definition reject_bounty :: "env \<Rightarrow> uint64 \<Rightarrow> state \<Rightarrow> error + (bool \<times> state)" where
  "reject_bounty e bounty_id s =
     (let box_name = box_name_of bounty_id;
          (box_exists, _) = Box_length box_name s
      in if box_exists = 0 then Inl NotFound
      else bind (Box_extract box_name 0 32 s) (\<lambda>client_b.
           bind (Box_extract box_name 64 32 s) (\<lambda>verifier_b.
           bind (Box_extract box_name 96 8 s) (\<lambda>amount_b.
           bind (Box_extract box_name 112 1 s) (\<lambda>status_b.
           let client = Account client_b;
               verifier = Account verifier_b;
               amount = btoi amount_b;
               status = btoi status_b
           in if \<not> (status = STATUS_SUBMITTED \<or> status = STATUS_ACCEPTED) then Inl InvalidState
           else if \<not> (sender e = client \<or> sender e = verifier) then Inl Unauthorized
           else if \<not> 0 < amount then Inl InvalidAmount
           else bind (Box_put box_name 112 (itob STATUS_REJECTED) s) (\<lambda>s1.
                bind (submit_payment e client amount s1) (\<lambda>s2.
                Inr (True, s2))))))))"

definition claim_bounty :: "env \<Rightarrow> uint64 \<Rightarrow> state \<Rightarrow> error + (bool \<times> state)" where
  "claim_bounty e bounty_id s =
     (let box_name = box_name_of bounty_id;
          (box_exists, _) = Box_length box_name s
      in if box_exists = 0 then Inl NotFound
      else bind (Box_extract box_name 32 32 s) (\<lambda>freelancer_b.
           bind (Box_extract box_name 96 8 s) (\<lambda>amount_b.
           bind (Box_extract box_name 112 1 s) (\<lambda>status_b.
           let freelancer = Account freelancer_b;
               amount = btoi amount_b;
               status = btoi status_b
           in if status \<noteq> STATUS_APPROVED then Inl InvalidState
           else if sender e \<noteq> freelancer then Inl Unauthorized
           else if \<not> 0 < amount then Inl InvalidAmount
           else bind (Box_put box_name 112 (itob STATUS_CLAIMED) s) (\<lambda>s1.
                bind (submit_payment e freelancer amount s1) (\<lambda>s2.
                Inr (True, s2)))))))"

definition refund_bounty :: "env \<Rightarrow> uint64 \<Rightarrow> state \<Rightarrow> error + (bool \<times> state)" where
  "refund_bounty e bounty_id s =
     (let box_name = box_name_of bounty_id;
          (box_exists, _) = Box_length box_name s
      in if box_exists = 0 then Inl NotFound
      else bind (Box_extract box_name 0 32 s) (\<lambda>client_b.
           bind (Box_extract box_name 64 32 s) (\<lambda>verifier_b.
           bind (Box_extract box_name 96 8 s) (\<lambda>amount_b.
           bind (Box_extract box_name 104 8 s) (\<lambda>deadline_b.
           bind (Box_extract box_name 112 1 s) (\<lambda>status_b.
           let client = Account client_b;
               verifier = Account verifier_b;
               amount = btoi amount_b;
               deadline = btoi deadline_b;
               status = btoi status_b
           in if status = STATUS_CLAIMED then Inl InvalidState
           else if status = STATUS_REFUNDED then Inl InvalidState
           else if status = STATUS_REJECTED then Inl InvalidState
           else if \<not> latest_timestamp e < deadline then Inl DeadlineExpired
           else if \<not> (sender e = client \<or> sender e = verifier) then Inl Unauthorized
           else if \<not> 0 < amount then Inl InvalidAmount
           else bind (Box_put box_name 112 (itob STATUS_REFUNDED) s) (\<lambda>s1.
                bind (submit_payment e client amount s1) (\<lambda>s2.
                Inr (True, s2)))))))))"

definition auto_refund :: "env \<Rightarrow> uint64 \<Rightarrow> state \<Rightarrow> error + (bool \<times> state)" where
  "auto_refund e bounty_id s =
     (let box_name = box_name_of bounty_id;
          (box_exists, _) = Box_length box_name s
      in if box_exists = 0 then Inl NotFound
      else bind (Box_extract box_name 0 32 s) (\<lambda>client_b.
           bind (Box_extract box_name 96 8 s) (\<lambda>amount_b.
           bind (Box_extract box_name 104 8 s) (\<lambda>deadline_b.
           bind (Box_extract box_name 112 1 s) (\<lambda>status_b.
           let client = Account client_b;
               amount = btoi amount_b;
               deadline = btoi deadline_b;
               status = btoi status_b
           in if status = STATUS_CLAIMED then Inl InvalidState
           else if status = STATUS_REFUNDED then Inl InvalidState
           else if status = STATUS_REJECTED then Inl InvalidState
           else if \<not> deadline \<le> latest_timestamp e then Inl DeadlineNotExpired
           else if \<not> 0 < amount then Inl InvalidAmount
           else bind (Box_put box_name 112 (itob STATUS_REFUNDED) s) (\<lambda>s1.
                bind (submit_payment e client amount s1) (\<lambda>s2.
                Inr (True, s2))))))))"

text \<open>
  The tuple \<^verbatim>\<open>get_bounty_info\<close> returns; the description is given by the bytes of the
  \<^verbatim>\<open>arc4.String\<close>. In the method, \<^verbatim>\<open>box_size - UInt64(113)\<close> subtracts from the
  existence flag, which counts as 0 or 1, and \<^verbatim>\<open>arc4.String(task_desc_bytes)\<close> encodes the
  bytes it is given: two length bytes, then the bytes.
\<close>

definition arc4_String :: "bytes \<Rightarrow> bytes" where
  "arc4_String b = be_bytes 2 (length b) @ b"


record bounty_info =
  info_client :: account
  info_freelancer :: account
  info_verifier :: account
  info_amount :: uint64
  info_deadline :: uint64
  info_status :: uint64
  info_task_description :: bytes

definition get_bounty_info :: "uint64 \<Rightarrow> state \<Rightarrow> error + (bounty_info \<times> state)" where
  "get_bounty_info bounty_id s =
     (let box_name = box_name_of bounty_id;
          (box_exists, box_size) = Box_length box_name s
      in if box_exists = 0 then Inl NotFound
      else bind (Box_extract box_name 0 32 s) (\<lambda>client_b.
           bind (Box_extract box_name 32 32 s) (\<lambda>freelancer_b.
           bind (Box_extract box_name 64 32 s) (\<lambda>verifier_b.
           bind (Box_extract box_name 96 8 s) (\<lambda>amount_b.
           bind (Box_extract box_name 104 8 s) (\<lambda>deadline_b.
           bind (Box_extract box_name 112 1 s) (\<lambda>status_b.
           if of_bool box_size < (113::nat) then Inl UIntOverflow
           else let task_desc_len = of_bool box_size - 113
           in bind (Box_extract box_name 113 task_desc_len s) (\<lambda>task_desc_bytes.
              let task_description = arc4_String task_desc_bytes
              in Inr (\<lparr>info_client = Account client_b,
                     info_freelancer = Account freelancer_b,
                     info_verifier = Account verifier_b,
                     info_amount = btoi amount_b,
                     info_deadline = btoi deadline_b,
                     info_status = btoi status_b,
                     info_task_description = task_description\<rparr>, s)))))))))"


subsection \<open>Calls, application calls as atomic units, and runs\<close>







subsection \<open>Observations\<close>


text \<open>
  The record a box holds, decoded at the offsets of the layout comment of \<^verbatim>\<open>create_bounty\<close>,
  where the methods read their fields: client at 0, freelancer at 32, verifier at 64,
  amount at 96, deadline at 104, status at 112 and the description from 113 on.
\<close>

definition info_of :: "state \<Rightarrow> uint64 \<Rightarrow> bounty_info option" where
  "info_of s bounty_id =
     (case boxes s (box_name_of bounty_id) of
        None \<Rightarrow> None
      | Some b \<Rightarrow>
          if length b < 113 then None
          else Some \<lparr>info_client = Account (take 32 b),
                     info_freelancer = Account (take 32 (drop 32 b)),
                     info_verifier = Account (take 32 (drop 64 b)),
                     info_amount = btoi (take 8 (drop 96 b)),
                     info_deadline = btoi (take 8 (drop 104 b)),
                     info_status = btoi (take 1 (drop 112 b)),
                     info_task_description = drop 113 b\<rparr>)"

text \<open>The status test of \<open>refund_bounty\<close> and \<open>auto_refund\<close>.\<close>

definition non_terminal :: "uint64 \<Rightarrow> bool" where
  "non_terminal st = (st \<noteq> STATUS_CLAIMED \<and> st \<noteq> STATUS_REFUNDED \<and> st \<noteq> STATUS_REJECTED)"








subsection \<open>Sample data\<close>

text \<open>
  Sample callers: account 1 is a client, 2 and 4 are workers, 3 is a verifier, 7 is a
  bystander and 9 is the contract address. \<open>env_at who t\<close> is a call by \<open>who\<close> at time \<open>t\<close>,
  second in a group of two, whose inner payment the ledger would accept. \<open>funding who amt\<close>
  is the payment of \<open>amt\<close> from \<open>who\<close> to the contract.
\<close>

definition env_at :: "account \<Rightarrow> uint64 \<Rightarrow> env" where
  "env_at who t = \<lparr>sender = who, latest_timestamp = t, group_size = 2, group_index = 1,
                    current_application_address = 9, itxn_ok = True\<rparr>"


definition desc7 :: bytes where
  "desc7 = [65, 66, 67, 68, 69, 70, 71]"

text \<open>
  Sample stores. No call of this contract ever writes a box (see below), so a store that
  holds a record is written down directly, in the layout of the comment in
  \<^verbatim>\<open>create_bounty\<close>. \<open>one_bounty\<close> holds the record a create by client 1 is meant to store:
  no freelancer, verifier 3, amount 1000, deadline 100, status \<open>OPEN\<close>, description
  \<open>desc7\<close>. \<open>store_with\<close> holds the same record with freelancer 2 and a given status byte.
\<close>

definition open_record :: bytes where
  "open_record =
     account_bytes 1 @ account_bytes 0 @ account_bytes 3 @ itob 1000 @ itob 100 @ [0] @ desc7"

definition one_bounty :: state where
  "one_bounty =
     \<lparr>bounty_count = 1, boxes = [box_name_of 0 \<mapsto> open_record],
      escrow = 1000, payments = []\<rparr>"









section \<open>Properties\<close>

subsection \<open>Reading the store\<close>

lemma Box_length_None: "boxes s n = None \<Longrightarrow> Box_length n s = (0, False)"
  by (simp add: Box_length_def)

lemma Box_length_Some: "boxes s n = Some b \<Longrightarrow> Box_length n s = (length b, True)"
  by (simp add: Box_length_def)

lemma Box_extract_Some:
  "boxes s n = Some b \<Longrightarrow> off + len \<le> length b \<Longrightarrow>
     Box_extract n off len s = Inr (take len (drop off b))"
  by (simp add: Box_extract_def)

lemma length_be_bytes [simp]: "length (be_bytes n v) = n"
  by (induction n arbitrary: v) simp_all

lemma length_itob [simp]: "length (itob x) = 8"
  by (simp add: itob_def)

lemma length_account_bytes [simp]: "length (account_bytes a) = 32"
  by (simp add: account_bytes_def)

lemma info_ofD:
  assumes "info_of s i = Some r"
  shows "\<exists>b. boxes s (box_name_of i) = Some b \<and> 113 \<le> length b
           \<and> info_client r = Account (take 32 b)
           \<and> info_freelancer r = Account (take 32 (drop 32 b))
           \<and> info_verifier r = Account (take 32 (drop 64 b))
           \<and> info_amount r = btoi (take 8 (drop 96 b))
           \<and> info_deadline r = btoi (take 8 (drop 104 b))
           \<and> info_status r = btoi (take 1 (drop 112 b))
           \<and> info_task_description r = drop 113 b"
  using assms by (auto simp: info_of_def split: option.splits if_splits)


subsection \<open>Unknown identifiers\<close>

text \<open>
  Claim C8. Every method that takes a bounty identifier fails with \<open>NotFound\<close> when no box
  exists for the identifier, whoever calls and whatever the time: the existence check comes
  before every status and authorization check, so no authorization error can be observed
  on an unknown identifier.
\<close>

theorem missing_record_is_NotFound:
  assumes "boxes s (box_name_of bounty_id) = None"
  shows "accept_bounty e bounty_id s = Inl NotFound
       \<and> submit_bounty e bounty_id s = Inl NotFound
       \<and> approve_bounty e bounty_id s = Inl NotFound
       \<and> reject_bounty e bounty_id s = Inl NotFound
       \<and> claim_bounty e bounty_id s = Inl NotFound
       \<and> refund_bounty e bounty_id s = Inl NotFound
       \<and> auto_refund e bounty_id s = Inl NotFound
       \<and> get_bounty_info bounty_id s = Inl NotFound"
  using assms
  by (simp add: Box_length_None accept_bounty_def submit_bounty_def approve_bounty_def
      reject_bounty_def claim_bounty_def refund_bounty_def auto_refund_def get_bounty_info_def)

theorem missing_record_is_NotFound_witness:
  "boxes genesis (box_name_of 5) = None
   \<and> accept_bounty (env_at 1 0) 5 genesis = Inl NotFound
   \<and> submit_bounty (env_at 1 0) 5 genesis = Inl NotFound
   \<and> approve_bounty (env_at 1 0) 5 genesis = Inl NotFound
   \<and> reject_bounty (env_at 1 0) 5 genesis = Inl NotFound
   \<and> claim_bounty (env_at 1 0) 5 genesis = Inl NotFound
   \<and> refund_bounty (env_at 1 0) 5 genesis = Inl NotFound
   \<and> auto_refund (env_at 1 0) 5 genesis = Inl NotFound
   \<and> get_bounty_info 5 genesis = Inl NotFound"
proof -
  have h: "boxes genesis (box_name_of 5) = None"
    by (simp add: genesis_def)
  show ?thesis
    using h missing_record_is_NotFound [OF h, of "env_at 1 0"] by simp
qed

subsection \<open>No call writes\<close>

















text \<open>
  The four paying methods stop at their status write, so none of them reaches the inner
  payment: none ever fails with \<open>TransferFailed\<close>.
\<close>

lemma payment_never_submitted:
  "reject_bounty e i s \<noteq> Inl TransferFailed"
  "claim_bounty e i s \<noteq> Inl TransferFailed"
  "refund_bounty e i s \<noteq> Inl TransferFailed"
  "auto_refund e i s \<noteq> Inl TransferFailed"
  by (simp_all add: reject_bounty_def claim_bounty_def refund_bounty_def auto_refund_def
      Box_put_def Box_extract_def bind_def Let_def split: prod.splits sum.splits option.splits)

subsection \<open>The bounty counter\<close>



subsection \<open>The deadline boundary\<close>

text \<open>
  Claim C10. At a time equal to the stored deadline, \<open>accept_bounty\<close> on an open record
  and \<open>refund_bounty\<close> on a non-terminal record fail with \<open>DeadlineExpired\<close>, while
  \<open>auto_refund\<close> does not fail with \<open>DeadlineNotExpired\<close>. On a non-terminal record and
  at any time, \<open>refund_bounty\<close> stops at its time check exactly when the time is not
  before the deadline, \<open>auto_refund\<close> stops at its time check exactly when the time is
  before the deadline, and exactly one of the two time conditions holds.
\<close>

theorem deadline_boundary:
  assumes "info_of s bounty_id = Some r"
  shows "(latest_timestamp e = info_deadline r \<and> info_status r = STATUS_OPEN
            \<longrightarrow> accept_bounty e bounty_id s = Inl DeadlineExpired)
       \<and> (latest_timestamp e = info_deadline r \<and> non_terminal (info_status r)
            \<longrightarrow> refund_bounty e bounty_id s = Inl DeadlineExpired
                \<and> auto_refund e bounty_id s \<noteq> Inl DeadlineNotExpired)
       \<and> (non_terminal (info_status r)
            \<longrightarrow> (refund_bounty e bounty_id s = Inl DeadlineExpired
                   \<longleftrightarrow> \<not> latest_timestamp e < info_deadline r)
                \<and> (auto_refund e bounty_id s = Inl DeadlineNotExpired
                   \<longleftrightarrow> \<not> info_deadline r \<le> latest_timestamp e)
                \<and> (latest_timestamp e < info_deadline r)
                   \<noteq> (info_deadline r \<le> latest_timestamp e))"
proof -
  from info_ofD [OF assms] obtain b where
    b: "boxes s (box_name_of bounty_id) = Some b" and len: "113 \<le> length b"
    and dl: "info_deadline r = btoi (take 8 (drop 104 b))"
    and st: "info_status r = btoi (take 1 (drop 112 b))"
    by blast
  from len have ne: "b \<noteq> []" by auto
  have acc: "latest_timestamp e = info_deadline r \<and> info_status r = STATUS_OPEN
            \<longrightarrow> accept_bounty e bounty_id s = Inl DeadlineExpired"
    using b len ne
    by (simp add: accept_bounty_def Box_length_Some Box_extract_Some bind_def Let_def dl st)
  have ref: "non_terminal (info_status r)
            \<longrightarrow> (refund_bounty e bounty_id s = Inl DeadlineExpired
                   \<longleftrightarrow> \<not> latest_timestamp e < info_deadline r)"
    using b len ne
    by (simp add: refund_bounty_def Box_length_Some Box_extract_Some Box_put_def bind_def
        Let_def dl st non_terminal_def)
  have aut: "non_terminal (info_status r)
            \<longrightarrow> (auto_refund e bounty_id s = Inl DeadlineNotExpired
                   \<longleftrightarrow> \<not> info_deadline r \<le> latest_timestamp e)"
    using b len ne
    by (simp add: auto_refund_def Box_length_Some Box_extract_Some Box_put_def bind_def
        Let_def dl st non_terminal_def)
  have gate: "(latest_timestamp e < info_deadline r) \<noteq> (info_deadline r \<le> latest_timestamp e)"
    by auto
  from acc ref aut gate show ?thesis by auto
qed

theorem deadline_boundary_witness:
  "info_of one_bounty 0 = Some
     \<lparr>info_client = 1, info_freelancer = 0, info_verifier = 3, info_amount = 1000,
      info_deadline = 100, info_status = STATUS_OPEN, info_task_description = desc7\<rparr>
   \<and> latest_timestamp (env_at 2 100) = 100
   \<and> non_terminal STATUS_OPEN
   \<and> accept_bounty (env_at 2 100) 0 one_bounty = Inl DeadlineExpired
   \<and> refund_bounty (env_at 2 100) 0 one_bounty = Inl DeadlineExpired
   \<and> auto_refund (env_at 2 100) 0 one_bounty \<noteq> Inl DeadlineNotExpired
   \<and> refund_bounty (env_at 2 99) 0 one_bounty \<noteq> Inl DeadlineExpired
   \<and> auto_refund (env_at 2 99) 0 one_bounty = Inl DeadlineNotExpired"
proof -
  let ?r = "\<lparr>info_client = 1, info_freelancer = 0, info_verifier = 3, info_amount = 1000,
      info_deadline = 100, info_status = STATUS_OPEN, info_task_description = desc7\<rparr>"
  have i: "info_of one_bounty 0 = Some ?r" by code_simp
  have t: "latest_timestamp (env_at 2 100) = 100" "latest_timestamp (env_at 2 99) = 99"
    by (simp_all add: env_at_def)
  have n: "non_terminal STATUS_OPEN"
    by (simp add: non_terminal_def STATUS_OPEN_def STATUS_CLAIMED_def STATUS_REFUNDED_def
        STATUS_REJECTED_def)
  from deadline_boundary [OF i, of "env_at 2 100"] t n
  have a: "accept_bounty (env_at 2 100) 0 one_bounty = Inl DeadlineExpired
   \<and> refund_bounty (env_at 2 100) 0 one_bounty = Inl DeadlineExpired
   \<and> auto_refund (env_at 2 100) 0 one_bounty \<noteq> Inl DeadlineNotExpired" by simp
  from deadline_boundary [OF i, of "env_at 2 99"] t n
  have b: "refund_bounty (env_at 2 99) 0 one_bounty \<noteq> Inl DeadlineExpired
   \<and> auto_refund (env_at 2 99) 0 one_bounty = Inl DeadlineNotExpired" by simp
  from i t n a b show ?thesis by simp
qed

subsection \<open>Payouts\<close>






subsection \<open>The stored status\<close>



subsection \<open>Freelancer and status\<close>






subsection \<open>What calls leave alone\<close>



subsection \<open>Creating, reading and refunding after the deadline\<close>



end
